theory Spec2Isabelle
  imports Complex_Main "HOL-Library.Multiset"
begin

section \<open>Values, payloads and configuration\<close>

text \<open>
  The consensus builders of \<^verbatim>\<open>ai_orchestrator.py\<close> work on the dictionaries that
  \<^verbatim>\<open>json.loads\<close> produced from a provider's answer. A JSON value is modelled up to
  Python's \<^verbatim>\<open>==\<close>: integers and floats are real numbers (floating-point rounding,
  NaN and the infinities are not modelled), and the booleans, which Python treats as the
  integers 1 and 0 in truth tests, \<^verbatim>\<open>isinstance(v, (int, float))\<close>, arithmetic,
  hashing and comparison, are the numbers 1 and 0. \<open>JNull\<close> is Python's \<^verbatim>\<open>None\<close>.
\<close>

datatype json =
    JNull
  | JNum real
  | JStr string
  | JList "json list"
  | JObj "(string \<times> json) list"


type_synonym payload = "string \<rightharpoonup> json"

text \<open>The exceptions that the modelled code can meet.\<close>

datatype py_error =
    KeyError | TypeError | ZeroDivisionError | IndexError | AttributeError
  | JSONDecodeError | RequestException

text \<open>Python's truth value of an object (\<^verbatim>\<open>if v:\<close>).\<close>

fun truthy :: "json \<Rightarrow> bool" where
  "truthy JNull = False"
| "truthy (JNum r) = (r \<noteq> 0)"
| "truthy (JStr s) = (s \<noteq> [])"
| "truthy (JList xs) = (xs \<noteq> [])"
| "truthy (JObj kvs) = (kvs \<noteq> [])"

text \<open>\<^verbatim>\<open>isinstance(v, (int, float))\<close>, giving the number.\<close>

fun as_number :: "json \<Rightarrow> real option" where
  "as_number (JNum r) = Some r"
| "as_number _ = None"

text \<open>\<^verbatim>\<open>d.get(k, default)\<close>: the stored value when the key is present, whatever it is.\<close>

definition get_default :: "payload \<Rightarrow> string \<Rightarrow> json \<Rightarrow> json" where
  "get_default d k dflt = (case d k of Some v \<Rightarrow> v | None \<Rightarrow> dflt)"

text \<open>
  One entry of \<^verbatim>\<open>config["models"]\<close>; the dictionary itself is the list of its items in
  insertion order.
\<close>

record model_config =
  enabled :: bool
  api_key :: string
  model_name :: string
  weight :: real
  tasks :: "string list"

type_synonym config = "(string \<times> model_config) list"

text \<open>\<^verbatim>\<open>self.config["models"][model_name]["weight"]\<close>\<close>

definition weight_of :: "config \<Rightarrow> string \<Rightarrow> py_error + real" where
  "weight_of cfg name =
     (case map_of cfg name of None \<Rightarrow> Inl KeyError | Some c \<Rightarrow> Inr (weight c))"

text \<open>
  \<^verbatim>\<open>sum(self.config["models"][name]["weight"] for name, _ in results)\<close>, starting from 0
  and adding from left to right.
\<close>

fun sum_weights :: "config \<Rightarrow> real \<Rightarrow> (string \<times> payload) list \<Rightarrow> py_error + real" where
  "sum_weights cfg acc [] = Inr acc"
| "sum_weights cfg acc ((name, _) # rest) =
     (case weight_of cfg name of
        Inl e \<Rightarrow> Inl e
      | Inr w \<Rightarrow> sum_weights cfg (acc + w) rest)"

text \<open>
  \<^verbatim>\<open>max(items, key=lambda x: x[1])\<close> on a non-empty sequence: the running maximum is
  replaced only by an item whose key is strictly greater, so the first maximal item is
  returned.
\<close>

fun max_from :: "('a \<times> real) \<Rightarrow> ('a \<times> real) list \<Rightarrow> ('a \<times> real)" where
  "max_from best [] = best"
| "max_from best (x # xs) = max_from (if snd x > snd best then x else best) xs"

section \<open>Contact research consensus\<close>

text \<open>The alias table \<^verbatim>\<open>field_mapping\<close> of \<^verbatim>\<open>build_contact_consensus\<close>.\<close>

definition field_mapping :: "(string \<times> string list) list" where
  "field_mapping =
     [(''job_title'', [''job_title'', ''probable_title'', ''title'']),
      (''department'', [''department'']),
      (''email'', [''email'', ''email_estimate'', ''email_address'']),
      (''linkedin'', [''linkedin'', ''linkedin_url'', ''linkedin_profile_url'']),
      (''phone'', [''phone'', ''phone_number'']),
      (''seniority_level'', [''seniority_level'', ''seniority'']),
      (''decision_maker_level'', [''decision_maker_level'', ''decision_authority''])]"

text \<open>
  The inner loop \<^verbatim>\<open>for key in possible_keys: if key in result and result[key]: ...; break\<close>:
  the value that is appended, if any.
\<close>

fun first_alias :: "payload \<Rightarrow> string list \<Rightarrow> json option" where
  "first_alias result [] = None"
| "first_alias result (key # keys) =
     (case result key of
        Some v \<Rightarrow> if truthy v then Some v else first_alias result keys
      | None \<Rightarrow> first_alias result keys)"

text \<open>
  The specification's wording of the same resolution: the value stored under the first
  alias, in priority order, that is present with a truthy value.
\<close>

definition usable :: "payload \<Rightarrow> string \<Rightarrow> bool" where
  "usable result key = (case result key of Some v \<Rightarrow> truthy v | None \<Rightarrow> False)"

definition spec_resolve :: "payload \<Rightarrow> string list \<Rightarrow> json option" where
  "spec_resolve result keys =
     (case find (usable result) keys of None \<Rightarrow> None | Some key \<Rightarrow> result key)"

text \<open>The state of the loop over \<^verbatim>\<open>results\<close>.\<close>

record contact_acc =
  field_responses :: "string \<Rightarrow> (json \<times> real) list"
  confidence_scores :: "real list"

definition contact_init :: contact_acc where
  "contact_init = \<lparr>field_responses = (\<lambda>_. []), confidence_scores = []\<rparr>"

text \<open>
  \<^verbatim>\<open>result.get("confidence_score", result.get("confidence", result.get("confidence_level", 50)))\<close>
\<close>

definition contact_conf :: "payload \<Rightarrow> json" where
  "contact_conf result =
     get_default result ''confidence_score''
       (get_default result ''confidence''
          (get_default result ''confidence_level'' (JNum 50)))"

definition contact_step :: "config \<Rightarrow> contact_acc \<Rightarrow> string \<times> payload \<Rightarrow> py_error + contact_acc" where
  "contact_step cfg st x =
     (case weight_of cfg (fst x) of
        Inl e \<Rightarrow> Inl e
      | Inr w \<Rightarrow>
          Inr \<lparr>field_responses =
                 (\<lambda>field. case map_of field_mapping field of
                     None \<Rightarrow> field_responses st field
                   | Some possible_keys \<Rightarrow>
                       (case first_alias (snd x) possible_keys of
                          None \<Rightarrow> field_responses st field
                        | Some v \<Rightarrow> field_responses st field @ [(v, w)])),
               confidence_scores =
                 (case as_number (contact_conf (snd x)) of
                    None \<Rightarrow> confidence_scores st
                  | Some c \<Rightarrow> confidence_scores st @ [c * w])\<rparr>)"

fun contact_loop :: "config \<Rightarrow> contact_acc \<Rightarrow> (string \<times> payload) list \<Rightarrow> py_error + contact_acc" where
  "contact_loop cfg st [] = Inr st"
| "contact_loop cfg st (x # xs) =
     (case contact_step cfg st x of
        Inl e \<Rightarrow> Inl e
      | Inr st' \<Rightarrow> contact_loop cfg st' xs)"

text \<open>
  The consensus dictionary: \<open>field_values\<close> gives the value stored under each of the
  seven canonical field names (\<open>JNull\<close> is the initial \<^verbatim>\<open>None\<close>; a name that is not
  a key of the dictionary is mapped to \<open>JNull\<close> as well), then the two scores.
\<close>

record contact_consensus =
  field_values :: "string \<Rightarrow> json"
  confidence_score :: real
  consensus_strength :: real

text \<open>\<^verbatim>\<open>consensus[field] = max(responses, key=lambda x: x[1])[0]\<close> when there are responses.\<close>

definition choose_response :: "(json \<times> real) list \<Rightarrow> json" where
  "choose_response responses =
     (case responses of [] \<Rightarrow> JNull | r # rs \<Rightarrow> fst (max_from r rs))"

text \<open>
  \<^verbatim>\<open>build_contact_consensus(results)\<close>; \<open>models\<close> are the keys of \<^verbatim>\<open>self.models\<close>.
\<close>

definition build_contact_consensus ::
  "config \<Rightarrow> string list \<Rightarrow> (string \<times> payload) list \<Rightarrow> py_error + contact_consensus" where
  "build_contact_consensus cfg models results =
     (case contact_loop cfg contact_init results of
        Inl e \<Rightarrow> Inl e
      | Inr st \<Rightarrow>
          (case (if confidence_scores st = [] then Inr (0::real)
                 else (case sum_weights cfg 0 results of
                         Inl e \<Rightarrow> Inl e
                       | Inr denom \<Rightarrow>
                           if denom = 0 then Inl ZeroDivisionError
                           else Inr (sum_list (confidence_scores st) / denom))) of
             Inl e \<Rightarrow> Inl e
           | Inr conf \<Rightarrow>
               if length models = 0 then Inl ZeroDivisionError
               else Inr \<lparr>field_values = (\<lambda>field. choose_response (field_responses st field)),
                         confidence_score = conf,
                         consensus_strength = real (length results) / real (length models)\<rparr>))"


section \<open>Company analysis consensus\<close>

text \<open>
  Dictionary keys and set elements must be hashable: lists and dictionaries are not, and
  using one raises \<^verbatim>\<open>TypeError\<close>.
\<close>

fun hashable :: "json \<Rightarrow> bool" where
  "hashable (JList _) = False"
| "hashable (JObj _) = False"
| "hashable _ = True"

text \<open>
  \<^verbatim>\<open>votes[k] = votes.get(k, 0) + weight\<close> on a dictionary kept as the list of its items in
  insertion order: an existing key keeps its position, a new key goes to the end.
\<close>

fun dict_add :: "(json \<times> real) list \<Rightarrow> json \<Rightarrow> real \<Rightarrow> (json \<times> real) list" where
  "dict_add [] k w = [(k, 0 + w)]"
| "dict_add ((k', v) # kvs) k w =
     (if k' = k then (k', v + w) # kvs else (k', v) # dict_add kvs k w)"

text \<open>\<^verbatim>\<open>if value: votes[value] = votes.get(value, 0) + weight\<close>\<close>

definition cast_vote :: "(json \<times> real) list \<Rightarrow> json \<Rightarrow> real \<Rightarrow> py_error + (json \<times> real) list" where
  "cast_vote votes v w =
     (if \<not> truthy v then Inr votes
      else if hashable v then Inr (dict_add votes v w)
      else Inl TypeError)"

text \<open>
  What iterating over a value yields: the items of a list, the one-character strings of
  a string, the keys of a dictionary; a number is not iterable.
\<close>

fun py_iter :: "json \<Rightarrow> py_error + json list" where
  "py_iter (JList xs) = Inr xs"
| "py_iter (JStr s) = Inr (map (\<lambda>c. JStr [c]) s)"
| "py_iter (JObj kvs) = Inr (map (\<lambda>kv. JStr (fst kv)) kvs)"
| "py_iter _ = Inl TypeError"

text \<open>
  A Python \<^verbatim>\<open>set\<close> is kept as the list of its distinct elements in the order they were
  first added. \<^verbatim>\<open>if xs: s.update(xs)\<close> adds the elements one by one.
\<close>

definition set_add :: "json list \<Rightarrow> json \<Rightarrow> json list" where
  "set_add s x = (if x \<in> set s then s else s @ [x])"

definition set_update :: "json list \<Rightarrow> json \<Rightarrow> py_error + json list" where
  "set_update s v =
     (if \<not> truthy v then Inr s
      else (case py_iter v of
              Inl e \<Rightarrow> Inl e
            | Inr xs \<Rightarrow> if list_all hashable xs then Inr (foldl set_add s xs) else Inl TypeError))"

record company_acc =
  industry_votes :: "(json \<times> real) list"
  size_votes :: "(json \<times> real) list"
  pain_points :: "json list"
  opportunities :: "json list"
  decision_makers :: "json list"
  websites :: "json list"
  linkedin_pages :: "json list"
  company_confidence_scores :: "real list"

definition company_init :: company_acc where
  "company_init =
     \<lparr>industry_votes = [], size_votes = [], pain_points = [], opportunities = [],
      decision_makers = [], websites = [], linkedin_pages = [],
      company_confidence_scores = []\<rparr>"

text \<open>The \<^verbatim>\<open>.get\<close> chains of \<^verbatim>\<open>build_company_consensus\<close>, one per collected item.\<close>

definition industry_of :: "payload \<Rightarrow> json" where
  "industry_of result =
     get_default result ''industry_type''
       (get_default result ''industry''
          (get_default result ''industry_classification'' JNull))"

definition size_of :: "payload \<Rightarrow> json" where
  "size_of result =
     get_default result ''company_size'' (get_default result ''size_estimate'' JNull)"

definition points_of :: "payload \<Rightarrow> json" where
  "points_of result =
     get_default result ''pain_points''
       (get_default result ''business_challenges''
          (get_default result ''key_challenges'' (JList [])))"

definition opps_of :: "payload \<Rightarrow> json" where
  "opps_of result =
     get_default result ''yardi_opportunities''
       (get_default result ''consulting_opportunities'' (JList []))"

definition titles_of :: "payload \<Rightarrow> json" where
  "titles_of result =
     get_default result ''target_titles''
       (get_default result ''target_decision_makers''
          (get_default result ''decision_maker_roles''
             (get_default result ''key_decision_makers'' (JList []))))"

definition website_of :: "payload \<Rightarrow> json" where
  "website_of result =
     get_default result ''website_url''
       (get_default result ''website'' (get_default result ''website_estimate'' JNull))"

definition linkedin_of :: "payload \<Rightarrow> json" where
  "linkedin_of result =
     get_default result ''linkedin_company_url''
       (get_default result ''linkedin_company'' (get_default result ''linkedin_page'' JNull))"

definition company_conf :: "payload \<Rightarrow> json" where
  "company_conf result =
     get_default result ''confidence_score'' (get_default result ''confidence'' (JNum 50))"

text \<open>\<^verbatim>\<open>if v: xs.append(v)\<close>\<close>

definition append_if :: "json list \<Rightarrow> json \<Rightarrow> json list" where
  "append_if xs v = (if truthy v then xs @ [v] else xs)"

text \<open>\<^verbatim>\<open>if isinstance(c, (int, float)): scores.append(c * weight)\<close>\<close>

definition append_score :: "real list \<Rightarrow> json \<Rightarrow> real \<Rightarrow> real list" where
  "append_score scores c w =
     (case as_number c of None \<Rightarrow> scores | Some r \<Rightarrow> scores @ [r * w])"

text \<open>One iteration of the loop over \<^verbatim>\<open>results\<close>, the statements in source order.\<close>

definition company_step :: "config \<Rightarrow> company_acc \<Rightarrow> string \<times> payload \<Rightarrow> py_error + company_acc" where
  "company_step cfg st x =
     (case weight_of cfg (fst x) of Inl e \<Rightarrow> Inl e | Inr w \<Rightarrow>
      case cast_vote (industry_votes st) (industry_of (snd x)) w of Inl e \<Rightarrow> Inl e | Inr iv \<Rightarrow>
      case cast_vote (size_votes st) (size_of (snd x)) w of Inl e \<Rightarrow> Inl e | Inr sv \<Rightarrow>
      case set_update (pain_points st) (points_of (snd x)) of Inl e \<Rightarrow> Inl e | Inr pp \<Rightarrow>
      case set_update (opportunities st) (opps_of (snd x)) of Inl e \<Rightarrow> Inl e | Inr op \<Rightarrow>
      case set_update (decision_makers st) (titles_of (snd x)) of Inl e \<Rightarrow> Inl e | Inr dm \<Rightarrow>
        Inr \<lparr>industry_votes = iv, size_votes = sv, pain_points = pp, opportunities = op,
             decision_makers = dm,
             websites = append_if (websites st) (website_of (snd x)),
             linkedin_pages = append_if (linkedin_pages st) (linkedin_of (snd x)),
             company_confidence_scores =
               append_score (company_confidence_scores st) (company_conf (snd x)) w\<rparr>)"

fun company_loop :: "config \<Rightarrow> company_acc \<Rightarrow> (string \<times> payload) list \<Rightarrow> py_error + company_acc" where
  "company_loop cfg st [] = Inr st"
| "company_loop cfg st (x # xs) =
     (case company_step cfg st x of
        Inl e \<Rightarrow> Inl e
      | Inr st' \<Rightarrow> company_loop cfg st' xs)"

record company_consensus =
  industry_type :: json
  company_size :: json
  top_pain_points :: "json list"
  yardi_opportunities :: "json list"
  target_decision_makers :: "json list"
  website_url :: json
  linkedin_company_url :: json
  company_confidence_score :: real

text \<open>\<^verbatim>\<open>max(votes.items(), key=lambda x: x[1])[0] if votes else default\<close>\<close>

definition winner :: "(json \<times> real) list \<Rightarrow> json \<Rightarrow> json" where
  "winner votes dflt = (case votes of [] \<Rightarrow> dflt | v # vs \<Rightarrow> fst (max_from v vs))"

text \<open>\<^verbatim>\<open>xs[0] if xs else None\<close>\<close>

definition first_or_none :: "json list \<Rightarrow> json" where
  "first_or_none xs = (case xs of [] \<Rightarrow> JNull | x # _ \<Rightarrow> x)"

text \<open>
  \<^verbatim>\<open>build_company_consensus(results)\<close>. \<^verbatim>\<open>list(s)\<close> enumerates a set in the order of its
  hash table, which the program does not control: it is the parameter \<open>order\<close>, applied
  to the set's elements in insertion order.
\<close>

definition build_company_consensus ::
  "(json list \<Rightarrow> json list) \<Rightarrow> config \<Rightarrow> (string \<times> payload) list \<Rightarrow> py_error + company_consensus" where
  "build_company_consensus order cfg results =
     (case company_loop cfg company_init results of
        Inl e \<Rightarrow> Inl e
      | Inr st \<Rightarrow>
          (case (if company_confidence_scores st = [] then Inr (0::real)
                 else if length results = 0 then Inl ZeroDivisionError
                 else Inr (sum_list (company_confidence_scores st) / real (length results))) of
             Inl e \<Rightarrow> Inl e
           | Inr conf \<Rightarrow>
               Inr \<lparr>industry_type = winner (industry_votes st) (JStr ''Other''),
                    company_size = winner (size_votes st) (JStr ''Unknown''),
                    top_pain_points = take 5 (order (pain_points st)),
                    yardi_opportunities = take 3 (order (opportunities st)),
                    target_decision_makers = take 5 (order (decision_makers st)),
                    website_url = first_or_none (websites st),
                    linkedin_company_url = first_or_none (linkedin_pages st),
                    company_confidence_score = conf\<rparr>))"

section \<open>Email verification consensus\<close>










section \<open>Source adapters\<close>



text \<open>Subscription \<^verbatim>\<open>v[k]\<close> with a string key or a non-negative index.\<close>

datatype key = Key string | Index nat




definition claude_path :: "key list" where
  "claude_path = [Key ''content'', Index 0, Key ''text'']"

definition gemini_path :: "key list" where
  "gemini_path =
     [Key ''candidates'', Index 0, Key ''content'', Key ''parts'', Index 0, Key ''text'']"






section \<open>Model registry and fan-out\<close>

text \<open>
  \<^verbatim>\<open>setup_models\<close>: the keys of \<^verbatim>\<open>self.models\<close> after the loop over the configuration.
  An entry is skipped when it is disabled or still carries the placeholder key
  \<^verbatim>\<open>your-<name>-api-key\<close>; of the others only the four known providers get a model.
\<close>

definition placeholder_key :: "string \<Rightarrow> string" where
  "placeholder_key name = ''your-'' @ name @ ''-api-key''"

definition known_provider :: "string \<Rightarrow> bool" where
  "known_provider name = (name \<in> set [''openai'', ''claude'', ''gemini'', ''deepseek''])"

fun setup_models :: "config \<Rightarrow> string list" where
  "setup_models [] = []"
| "setup_models ((name, c) # rest) =
     (if \<not> enabled c then setup_models rest
      else if api_key c = placeholder_key name then setup_models rest
      else if known_provider name then name # setup_models rest
      else setup_models rest)"

text \<open>
  What awaiting one adapter call yields under \<^verbatim>\<open>asyncio.gather(..., return_exceptions=True)\<close>:
  the exception it raised, or the dictionary it returned.
\<close>

datatype outcome = Raised string | Returned payload

text \<open>
  The first loop of \<^verbatim>\<open>research_contact_consensus\<close>: the models whose configured tasks
  contain the task, in the order of \<^verbatim>\<open>self.models\<close>.
\<close>

fun select_models :: "config \<Rightarrow> string \<Rightarrow> string list \<Rightarrow> py_error + string list" where
  "select_models cfg task [] = Inr []"
| "select_models cfg task (name # rest) =
     (case map_of cfg name of
        None \<Rightarrow> Inl KeyError
      | Some c \<Rightarrow>
          (case select_models cfg task rest of
             Inl e \<Rightarrow> Inl e
           | Inr sel \<Rightarrow> Inr (if task \<in> set (tasks c) then name # sel else sel)))"

text \<open>
  The loop over the gathered results: \<open>valid_results\<close> and \<open>model_responses\<close> (a
  dictionary, kept as the list of its items).
\<close>

fun collect ::
  "(string \<times> payload) list \<times> (string \<times> payload) list \<Rightarrow> (string \<times> outcome) list \<Rightarrow>
   (string \<times> payload) list \<times> (string \<times> payload) list" where
  "collect (valid_results, model_responses) [] = (valid_results, model_responses)"
| "collect (valid_results, model_responses) ((name, Raised msg) # rest) =
     collect (valid_results, model_responses @ [(name, [''error'' \<mapsto> JStr msg])]) rest"
| "collect (valid_results, model_responses) ((name, Returned result) # rest) =
     (if result ''error'' \<noteq> None
      then collect (valid_results, model_responses @ [(name, result)]) rest
      else collect (valid_results @ [(name, result)], model_responses @ [(name, result)]) rest)"

text \<open>
  The dictionary a coordinator returns: an error message, with the per-model responses
  when there are any, or the consensus with \<^verbatim>\<open>model_responses\<close> and \<^verbatim>\<open>models_used\<close>.
\<close>

datatype 'c research_result =
    ErrorDict string "(string \<times> payload) list option"
  | ConsensusDict 'c "(string \<times> payload) list" "string list"

text \<open>
  \<^verbatim>\<open>research_contact_consensus\<close>, with \<open>run name\<close> the outcome of the adapter call of model
  \<open>name\<close>. Writing the consensus to the database is left to the persistence layer.
\<close>

definition research_contact_consensus ::
  "config \<Rightarrow> string list \<Rightarrow> (string \<Rightarrow> outcome) \<Rightarrow> py_error + contact_consensus research_result" where
  "research_contact_consensus cfg models run =
     (case select_models cfg ''contact_research'' models of
        Inl e \<Rightarrow> Inl e
      | Inr enabled_models \<Rightarrow>
          if enabled_models = [] then
            Inr (ErrorDict ''No models enabled for contact research'' None)
          else
            (case collect ([], []) (map (\<lambda>name. (name, run name)) enabled_models) of
               (valid_results, model_responses) \<Rightarrow>
                 if valid_results = [] then
                   Inr (ErrorDict ''No valid responses from any model'' (Some model_responses))
                 else
                   (case build_contact_consensus cfg models valid_results of
                      Inl e \<Rightarrow> Inl e
                    | Inr consensus \<Rightarrow>
                        Inr (ConsensusDict consensus model_responses (map fst valid_results)))))"

section \<open>Notions used in the statements\<close>

text \<open>
  Two notions used to state properties of the builders: the configured weight as a total
  function, and that every result's model name is a key of the configuration (it always
  is for results gathered by the coordinator, whose names come from \<^verbatim>\<open>self.models\<close>).
\<close>

definition cfg_weight :: "config \<Rightarrow> string \<Rightarrow> real" where
  "cfg_weight cfg name = (case map_of cfg name of Some c \<Rightarrow> weight c | None \<Rightarrow> 0)"

definition configured :: "config \<Rightarrow> (string \<times> payload) list \<Rightarrow> bool" where
  "configured cfg results = (\<forall>x \<in> set results. map_of cfg (fst x) \<noteq> None)"

text \<open>
  The opinions on one canonical field, in the order of \<open>results\<close>: for each result whose
  payload resolves the field, the resolved value with the weight of its source.
\<close>

definition opinions_for :: "config \<Rightarrow> string list \<Rightarrow> (string \<times> payload) list \<Rightarrow> (json \<times> real) list" where
  "opinions_for cfg keys results =
     List.map_filter
       (\<lambda>x. map_option (\<lambda>v. (v, cfg_weight cfg (fst x))) (spec_resolve (snd x) keys)) results"

text \<open>
  Notions used to state properties of the aggregation: the weight-sum of the results
  present, the weight-sum of those voting for a valid format, what a collected iterable
  contributes to a set, and that adding it does not raise.
\<close>

definition present_weight :: "config \<Rightarrow> (string \<times> payload) list \<Rightarrow> real" where
  "present_weight cfg results = sum_list (map (\<lambda>x. cfg_weight cfg (fst x)) results)"


definition elements_of :: "json \<Rightarrow> json list" where
  "elements_of v =
     (if truthy v then (case py_iter v of Inl _ \<Rightarrow> [] | Inr xs \<Rightarrow> xs) else [])"

definition collectable :: "json \<Rightarrow> bool" where
  "collectable v =
     (\<not> truthy v \<or> (case py_iter v of Inl _ \<Rightarrow> False | Inr xs \<Rightarrow> list_all hashable xs))"

definition positive_weights :: "config \<Rightarrow> (string \<times> payload) list \<Rightarrow> bool" where
  "positive_weights cfg results = (\<forall>x \<in> set results. 0 < cfg_weight cfg (fst x))"


text \<open>
  The responses collected for a canonical field of contact research and the weighted
  confidence scores collected from the results, as functions of \<open>results\<close>.
\<close>

definition responses_for :: "config \<Rightarrow> string \<Rightarrow> (string \<times> payload) list \<Rightarrow> (json \<times> real) list" where
  "responses_for cfg field results =
     (case map_of field_mapping field of
        None \<Rightarrow> []
      | Some keys \<Rightarrow> opinions_for cfg keys results)"

definition contact_scores :: "config \<Rightarrow> (string \<times> payload) list \<Rightarrow> real list" where
  "contact_scores cfg results =
     List.map_filter
       (\<lambda>x. map_option (\<lambda>c. c * cfg_weight cfg (fst x)) (as_number (contact_conf (snd x))))
       results"

text \<open>The configuration entries for which \<^verbatim>\<open>setup_models\<close> creates a model.\<close>

definition initialised :: "string \<times> model_config \<Rightarrow> bool" where
  "initialised e =
     (enabled (snd e) \<and> api_key (snd e) \<noteq> placeholder_key (fst e) \<and> known_provider (fst e))"

text \<open>
  The sources eligible for a task, whether an adapter call failed (it raised, or it
  returned a dictionary with an \<open>error\<close> key), and what is recorded for it in
  \<^verbatim>\<open>model_responses\<close>.
\<close>

definition eligible :: "config \<Rightarrow> string \<Rightarrow> string \<Rightarrow> bool" where
  "eligible cfg task name =
     (case map_of cfg name of None \<Rightarrow> False | Some c \<Rightarrow> task \<in> set (tasks c))"

fun failed :: "outcome \<Rightarrow> bool" where
  "failed (Raised msg) = True"
| "failed (Returned result) = (result ''error'' \<noteq> None)"

fun response_of :: "outcome \<Rightarrow> payload" where
  "response_of (Raised msg) = [''error'' \<mapsto> JStr msg]"
| "response_of (Returned result) = result"

definition registered :: "config \<Rightarrow> string list \<Rightarrow> bool" where
  "registered cfg models = (\<forall>name \<in> set models. map_of cfg name \<noteq> None)"




text \<open>The votes dictionary after the opinions have been added one by one.\<close>

definition add_opinion :: "(json \<times> real) list \<Rightarrow> json \<times> real \<Rightarrow> (json \<times> real) list" where
  "add_opinion votes p = dict_add votes (fst p) (snd p)"

definition first_occurrences :: "'a list \<Rightarrow> 'a list" where
  "first_occurrences xs = rev (remdups (rev xs))"

text \<open>
  What the loop of \<^verbatim>\<open>build_company_consensus\<close> collects, as functions of \<open>results\<close>:
  the opinions on a scalar field (the truthy values with their source's weight), the
  elements gathered for a set-valued field, the truthy values of a first-wins field and
  the weighted confidence scores. A payload is acceptable when adding its values raises
  no \<^verbatim>\<open>TypeError\<close>.
\<close>

definition scalar_opinions ::
  "config \<Rightarrow> (payload \<Rightarrow> json) \<Rightarrow> (string \<times> payload) list \<Rightarrow> (json \<times> real) list" where
  "scalar_opinions cfg get results =
     map (\<lambda>x. (get (snd x), cfg_weight cfg (fst x))) (filter (\<lambda>x. truthy (get (snd x))) results)"

definition collected :: "(payload \<Rightarrow> json) \<Rightarrow> (string \<times> payload) list \<Rightarrow> json list" where
  "collected get results = concat (map (\<lambda>x. elements_of (get (snd x))) results)"

definition truthy_values :: "(payload \<Rightarrow> json) \<Rightarrow> (string \<times> payload) list \<Rightarrow> json list" where
  "truthy_values get results = filter truthy (map (\<lambda>x. get (snd x)) results)"

definition company_scores :: "config \<Rightarrow> (string \<times> payload) list \<Rightarrow> real list" where
  "company_scores cfg results =
     List.map_filter
       (\<lambda>x. map_option (\<lambda>c. c * cfg_weight cfg (fst x)) (as_number (company_conf (snd x))))
       results"

definition votable :: "json \<Rightarrow> bool" where
  "votable v = (\<not> truthy v \<or> hashable v)"

definition company_payloads_ok :: "(string \<times> payload) list \<Rightarrow> bool" where
  "company_payloads_ok results =
     (\<forall>x \<in> set results.
        votable (industry_of (snd x)) \<and> votable (size_of (snd x)) \<and>
        collectable (points_of (snd x)) \<and> collectable (opps_of (snd x)) \<and>
        collectable (titles_of (snd x)))"

text \<open>
  What is assumed of \<^verbatim>\<open>list(s)\<close> for a set \<open>s\<close>: it lists each element once, in some
  order.
\<close>

definition enumerates :: "(json list \<Rightarrow> json list) \<Rightarrow> bool" where
  "enumerates order = (\<forall>xs. distinct xs \<longrightarrow> distinct (order xs) \<and> set (order xs) = set xs)"

text \<open>
  The specification's confidence score: the weighted confidences of the results that
  supplied a number, divided by the sum of the weights of exactly those results.
\<close>

definition spec_confidence ::
  "config \<Rightarrow> (payload \<Rightarrow> json) \<Rightarrow> (string \<times> payload) list \<Rightarrow> real" where
  "spec_confidence cfg conf results =
     sum_list (List.map_filter
                 (\<lambda>x. map_option (\<lambda>c. c * cfg_weight cfg (fst x)) (as_number (conf (snd x))))
                 results)
     / present_weight cfg (filter (\<lambda>x. as_number (conf (snd x)) \<noteq> None) results)"





section \<open>Example inputs\<close>

definition one_model_config :: config where
  "one_model_config =
     [(''openai'', \<lparr>enabled = True, api_key = ''sk-1'', model_name = ''gpt-4'', weight = 0.3,
                    tasks = [''contact_research'']\<rparr>)]"

definition vp_payload :: payload where
  "vp_payload = [''probable_title'' \<mapsto> JStr ''VP Sales'', ''title'' \<mapsto> JStr ''Director'']"

definition two_model_config :: config where
  "two_model_config =
     [(''openai'', \<lparr>enabled = True, api_key = ''sk-1'', model_name = ''gpt-4'', weight = 0.3,
                    tasks = [''contact_research'', ''email_verification'', ''company_analysis'']\<rparr>),
      (''gemini'', \<lparr>enabled = True, api_key = ''sk-2'', model_name = ''gemini-pro'', weight = 0.2,
                    tasks = [''contact_research'', ''company_analysis'']\<rparr>)]"



definition half_enabled_config :: config where
  "half_enabled_config =
     [(''openai'', \<lparr>enabled = True, api_key = ''sk-1'', model_name = ''gpt-4'', weight = 0.3,
                    tasks = [''contact_research'']\<rparr>),
      (''claude'', \<lparr>enabled = False, api_key = ''sk-2'', model_name = ''claude-3'', weight = 0.3,
                    tasks = [''contact_research'']\<rparr>)]"

definition email_only_config :: config where
  "email_only_config =
     [(''openai'', \<lparr>enabled = True, api_key = ''sk-1'', model_name = ''gpt-4'', weight = 0.3,
                    tasks = [''email_verification'']\<rparr>)]"





definition pains_1 :: payload where
  "pains_1 = [''pain_points'' \<mapsto> JList [JStr ''a'', JStr ''b'', JStr ''c'', JStr ''d''],
              ''yardi_opportunities'' \<mapsto> JList [JStr ''x'', JStr ''y'']]"

definition pains_2 :: payload where
  "pains_2 = [''business_challenges'' \<mapsto>
                JList [JStr ''c'', JStr ''d'', JStr ''e'', JStr ''f'', JStr ''g''],
              ''yardi_opportunities'' \<mapsto> JList [JStr ''y'', JStr ''z'', JStr ''w'']]"

definition pains_results :: "(string \<times> payload) list" where
  "pains_results = [(''openai'', pains_1), (''gemini'', pains_2)]"

definition sure_80 :: payload where
  "sure_80 = [''confidence_score'' \<mapsto> JNum 80]"

definition sure_high :: payload where
  "sure_high = [''confidence_score'' \<mapsto> JStr ''high'']"






section \<open>Alias resolution\<close>


lemma first_alias_spec: "first_alias result keys = spec_resolve result keys"
  by (induction keys) (auto simp: spec_resolve_def usable_def split: option.splits)

lemma weight_of_configured:
  "map_of cfg name \<noteq> None \<Longrightarrow> weight_of cfg name = Inr (cfg_weight cfg name)"
  by (auto simp: weight_of_def cfg_weight_def)

lemma contact_loop_responses:
  assumes "configured cfg results" "map_of field_mapping field = Some keys"
  shows "\<exists>st'. contact_loop cfg st results = Inr st' \<and>
           field_responses st' field = field_responses st field @ opinions_for cfg keys results"
  using assms
proof (induction results arbitrary: st)
  case Nil
  then show ?case by (simp add: opinions_for_def List.map_filter_simps)
next
  case (Cons x xs)
  then have cx: "map_of cfg (fst x) \<noteq> None" and cxs: "configured cfg xs"
    by (auto simp: configured_def)
  obtain st1 where s1: "contact_step cfg st x = Inr st1"
    and f1: "field_responses st1 field = field_responses st field @ opinions_for cfg keys [x]"
    using cx Cons.prems(2)
    by (auto simp: contact_step_def weight_of_configured opinions_for_def List.map_filter_simps
        first_alias_spec split: option.splits)
  from Cons.IH[OF cxs Cons.prems(2), of st1] obtain st' where
    "contact_loop cfg st1 xs = Inr st'"
    "field_responses st' field = field_responses st1 field @ opinions_for cfg keys xs" by blast
  with s1 f1 show ?case
    by (auto simp: opinions_for_def List.map_filter_simps split: option.splits)
qed

lemma first_alias_index:
  "first_alias result ks = Some v \<longleftrightarrow>
     (\<exists>i<length ks. result (ks ! i) = Some v \<and> truthy v \<and> (\<forall>j<i. \<not> usable result (ks ! j)))"
  unfolding first_alias_spec spec_resolve_def
  apply (auto simp: find_Some_iff find_None_iff usable_def in_set_conv_nth split: option.splits)
  by (metis nat_neq_iff option.inject)

text \<open>
  C8. In \<^verbatim>\<open>build_contact_consensus\<close> every canonical field is resolved from a raw
  payload by going through the field's aliases in the order of \<^verbatim>\<open>field_mapping\<close> and
  taking the value of the first alias that is present with a truthy value; the aliases
  after it are not looked at. The responses collected for a field are exactly these
  resolved values, one per result that has one. The aliases of \<open>job_title\<close> are
  \<open>job_title\<close>, \<open>probable_title\<close>, \<open>title\<close>, and the payload with
  \<open>probable_title = VP Sales\<close> and \<open>title = Director\<close> resolves to \<open>VP Sales\<close>.
\<close>

theorem alias_resolution_first_truthy:
  assumes "configured cfg results" and "map_of field_mapping field = Some keys"
  shows "(\<exists>st. contact_loop cfg contact_init results = Inr st \<and>
              field_responses st field = opinions_for cfg keys results) \<and>
         (\<forall>result ks. first_alias result ks = spec_resolve result ks) \<and>
         (\<forall>result ks v. first_alias result ks = Some v \<longleftrightarrow>
             (\<exists>i<length ks. result (ks ! i) = Some v \<and> truthy v \<and>
                (\<forall>j<i. \<not> usable result (ks ! j)))) \<and>
         map_of field_mapping ''job_title'' = Some [''job_title'', ''probable_title'', ''title''] \<and>
         first_alias vp_payload [''job_title'', ''probable_title'', ''title''] = Some (JStr ''VP Sales'')"
proof -
  have "\<exists>st. contact_loop cfg contact_init results = Inr st \<and>
              field_responses st field = opinions_for cfg keys results"
    using contact_loop_responses[OF assms, of contact_init] by (simp add: contact_init_def)
  moreover have "map_of field_mapping ''job_title'' = Some [''job_title'', ''probable_title'', ''title'']"
    by (simp add: field_mapping_def)
  moreover have "first_alias vp_payload [''job_title'', ''probable_title'', ''title''] = Some (JStr ''VP Sales'')"
    by (simp add: vp_payload_def)
  ultimately show ?thesis
    using first_alias_spec first_alias_index by blast
qed

theorem alias_resolution_first_truthy_witness:
  "configured one_model_config [(''openai'', vp_payload)] \<and>
   map_of field_mapping ''job_title'' = Some [''job_title'', ''probable_title'', ''title''] \<and>
   (\<exists>st. contact_loop one_model_config contact_init [(''openai'', vp_payload)] = Inr st \<and>
         field_responses st ''job_title'' = [(JStr ''VP Sales'', 0.3)])"
proof -
  have c: "configured one_model_config [(''openai'', vp_payload)]"
    by (simp add: configured_def one_model_config_def)
  have m: "map_of field_mapping ''job_title'' = Some [''job_title'', ''probable_title'', ''title'']"
    by (simp add: field_mapping_def)
  have o: "opinions_for one_model_config [''job_title'', ''probable_title'', ''title'']
             [(''openai'', vp_payload)] = [(JStr ''VP Sales'', 0.3)]"
    by (simp add: opinions_for_def List.map_filter_simps spec_resolve_def usable_def
        vp_payload_def cfg_weight_def one_model_config_def)
  show ?thesis
    using alias_resolution_first_truthy[OF c m] c m o by simp
qed

section \<open>Email verification: weighted majority and the confidence ratio\<close>

lemma sum_weights_configured:
  "configured cfg results \<Longrightarrow> sum_weights cfg acc results = Inr (acc + present_weight cfg results)"
  by (induction results arbitrary: acc)
     (auto simp: configured_def present_weight_def weight_of_configured)

lemma set_foldl_set_add: "set (foldl set_add s xs) = set s \<union> set xs"
  by (induction xs arbitrary: s) (auto simp: set_add_def)

lemma distinct_foldl_set_add: "distinct s \<Longrightarrow> distinct (foldl set_add s xs)"
  by (induction xs arbitrary: s) (auto simp: set_add_def)

lemma set_update_collectable:
  "collectable v \<Longrightarrow> set_update s v = Inr (foldl set_add s (elements_of v))"
  by (auto simp: collectable_def set_update_def elements_of_def split: sum.splits)


lemma present_weight_pos:
  assumes "results \<noteq> []" and "positive_weights cfg results"
  shows "0 < present_weight cfg results"
proof -
  obtain x xs where r: "results = x # xs"
    using assms(1) by (cases results) auto
  have "0 \<le> sum_list (map (\<lambda>x. cfg_weight cfg (fst x)) xs)"
    using assms(2) r by (intro sum_list_nonneg) (auto simp: positive_weights_def less_imp_le)
  moreover have "0 < cfg_weight cfg (fst x)"
    using assms(2) r by (simp add: positive_weights_def)
  ultimately show ?thesis
    by (simp add: r present_weight_def add_pos_nonneg)
qed





section \<open>Contact research: the result of the builder\<close>

lemma contact_step_char:
  assumes "map_of cfg (fst x) \<noteq> None"
  shows "contact_step cfg st x =
           Inr \<lparr>field_responses = (\<lambda>field. field_responses st field @ responses_for cfg field [x]),
                confidence_scores = confidence_scores st @ contact_scores cfg [x]\<rparr>"
proof -
  have "(\<lambda>field. case map_of field_mapping field of
                   None \<Rightarrow> field_responses st field
                 | Some possible_keys \<Rightarrow>
                     (case first_alias (snd x) possible_keys of
                        None \<Rightarrow> field_responses st field
                      | Some v \<Rightarrow> field_responses st field @ [(v, cfg_weight cfg (fst x))]))
        = (\<lambda>field. field_responses st field @ responses_for cfg field [x])"
    by (rule ext)
       (simp add: responses_for_def opinions_for_def List.map_filter_simps first_alias_spec
          split: option.splits)
  moreover have "(case as_number (contact_conf (snd x)) of
                    None \<Rightarrow> confidence_scores st
                  | Some c \<Rightarrow> confidence_scores st @ [c * cfg_weight cfg (fst x)])
        = confidence_scores st @ contact_scores cfg [x]"
    by (simp add: contact_scores_def List.map_filter_simps split: option.splits)
  ultimately show ?thesis
    by (simp add: contact_step_def weight_of_configured[OF assms])
qed

lemma responses_for_Cons:
  "responses_for cfg field (x # xs) = responses_for cfg field [x] @ responses_for cfg field xs"
  by (simp add: responses_for_def opinions_for_def List.map_filter_simps split: option.splits)

lemma contact_scores_Cons:
  "contact_scores cfg (x # xs) = contact_scores cfg [x] @ contact_scores cfg xs"
  by (simp add: contact_scores_def List.map_filter_simps split: option.splits)

lemma responses_for_Nil: "responses_for cfg field [] = []"
  by (simp add: responses_for_def opinions_for_def List.map_filter_simps split: option.splits)

lemma contact_scores_Nil: "contact_scores cfg [] = []"
  by (simp add: contact_scores_def List.map_filter_simps)

lemma contact_loop_char:
  assumes "configured cfg results"
  shows "contact_loop cfg st results =
           Inr \<lparr>field_responses = (\<lambda>field. field_responses st field @ responses_for cfg field results),
                confidence_scores = confidence_scores st @ contact_scores cfg results\<rparr>"
  using assms
proof (induction results arbitrary: st)
  case Nil
  then show ?case
    by (simp add: responses_for_Nil contact_scores_Nil)
next
  case (Cons x xs)
  then have cx: "map_of cfg (fst x) \<noteq> None" and cxs: "configured cfg xs"
    by (auto simp: configured_def)
  show ?case
    by (simp add: contact_step_char[OF cx] Cons.IH[OF cxs]
        responses_for_Cons[of cfg _ x xs] contact_scores_Cons[of cfg x xs])
qed

lemma build_contact_consensus_char:
  assumes "configured cfg results" and "results \<noteq> []" and "positive_weights cfg results"
    and "models \<noteq> []"
  shows "build_contact_consensus cfg models results =
           Inr \<lparr>field_values = (\<lambda>field. choose_response (responses_for cfg field results)),
                confidence_score =
                  (if contact_scores cfg results = [] then 0
                   else sum_list (contact_scores cfg results) / present_weight cfg results),
                consensus_strength = real (length results) / real (length models)\<rparr>"
proof -
  have pos: "present_weight cfg results \<noteq> 0"
    using present_weight_pos[OF assms(2,3)] by simp
  show ?thesis
    using pos assms(4)
    by (simp add: build_contact_consensus_def contact_loop_char[OF assms(1)] contact_init_def
        sum_weights_configured[OF assms(1)])
qed

lemma setup_models_filter: "setup_models cfg = map fst (filter initialised cfg)"
  by (induction cfg rule: setup_models.induct) (auto simp: initialised_def)

lemma length_le_models:
  assumes "distinct (map fst results)" and "set (map fst results) \<subseteq> set models"
  shows "length results \<le> length models"
proof -
  have "length results = card (set (map fst results))"
    using assms(1) by (metis distinct_card length_map)
  also have "\<dots> \<le> card (set models)"
    using assms(2) by (intro card_mono) auto
  also have "\<dots> \<le> length models" by (rule card_length)
  finally show ?thesis .
qed

text \<open>
  C3, as the code has it. \<open>consensus_strength\<close> is the number of contributing results
  divided by the number of models in \<^verbatim>\<open>self.models\<close>, which \<^verbatim>\<open>setup_models\<close> fills with
  the configured sources that are enabled, carry a real API key and are a known provider:
  not by the number of all configured sources. It lies between 0 and 1 when the results
  come from distinct models of \<^verbatim>\<open>self.models\<close>, as the gathered results do.
\<close>

theorem consensus_strength_over_initialised:
  assumes "configured cfg results" and "results \<noteq> []" and "positive_weights cfg results"
    and "distinct (map fst results)" and "set (map fst results) \<subseteq> set models"
  shows "(\<exists>c. build_contact_consensus cfg models results = Inr c \<and>
              consensus_strength c = real (length results) / real (length models) \<and>
              0 \<le> consensus_strength c \<and> consensus_strength c \<le> 1) \<and>
         length (setup_models cfg) = length (filter initialised cfg)"
proof -
  have ne: "models \<noteq> []" using assms(2,5) by (cases results) auto
  have le: "length results \<le> length models" using length_le_models[OF assms(4,5)] .
  have "real (length results) / real (length models) \<le> 1"
    using le ne by (simp add: divide_le_eq_1)
  then show ?thesis
    using build_contact_consensus_char[OF assms(1,2,3) ne]
    by (simp add: setup_models_filter)
qed

theorem consensus_strength_over_initialised_witness:
  "configured half_enabled_config [(''openai'', vp_payload)] \<and>
   [(''openai'', vp_payload)] \<noteq> [] \<and>
   positive_weights half_enabled_config [(''openai'', vp_payload)] \<and>
   distinct (map fst [(''openai'', vp_payload)]) \<and>
   set (map fst [(''openai'', vp_payload)]) \<subseteq> set (setup_models half_enabled_config) \<and>
   (\<exists>c. build_contact_consensus half_enabled_config (setup_models half_enabled_config)
           [(''openai'', vp_payload)] = Inr c \<and> consensus_strength c = 1)"
proof -
  let ?rs = "[(''openai'', vp_payload)]"
  have m: "setup_models half_enabled_config = [''openai'']"
    by (simp add: half_enabled_config_def placeholder_key_def known_provider_def)
  have a: "configured half_enabled_config ?rs"
    by (simp add: configured_def half_enabled_config_def)
  have b: "?rs \<noteq> []" by simp
  have c: "positive_weights half_enabled_config ?rs"
    by (simp add: positive_weights_def cfg_weight_def half_enabled_config_def)
  have d: "distinct (map fst ?rs)" by simp
  have e: "set (map fst ?rs) \<subseteq> set (setup_models half_enabled_config)"
    by (simp add: m)
  show ?thesis
    using consensus_strength_over_initialised[OF a b c d e] a b c d e by (auto simp: m)
qed

text \<open>
  C3 as stated fails: with two configured sources of which one is disabled and one
  contributing result, the strength is 1, not 1/2.
\<close>

theorem consensus_strength_not_over_configured:
  "map_sum id consensus_strength
     (build_contact_consensus half_enabled_config (setup_models half_enabled_config)
        [(''openai'', vp_payload)]) = Inr 1 \<and>
   map_sum id consensus_strength
     (build_contact_consensus half_enabled_config (setup_models half_enabled_config)
        [(''openai'', vp_payload)])
     \<noteq> Inr (real (length [(''openai'', vp_payload)]) / real (length half_enabled_config))"
proof -
  let ?rs = "[(''openai'', vp_payload)]"
  have m: "setup_models half_enabled_config = [''openai'']"
    by (simp add: half_enabled_config_def placeholder_key_def known_provider_def)
  have a: "configured half_enabled_config ?rs"
    by (simp add: configured_def half_enabled_config_def)
  have c: "positive_weights half_enabled_config ?rs"
    by (simp add: positive_weights_def cfg_weight_def half_enabled_config_def)
  have "length half_enabled_config = 2" by (simp add: half_enabled_config_def)
  then show ?thesis
    using build_contact_consensus_char[OF a _ c, of "[''openai'']"] by (simp add: m)
qed

section \<open>The fan-out coordinator\<close>

lemma select_models_registered:
  "registered cfg models \<Longrightarrow> select_models cfg task models = Inr (filter (eligible cfg task) models)"
  by (induction models) (auto simp: registered_def eligible_def)

lemma collect_all_failed:
  "\<forall>name \<in> set sel. failed (run name) \<Longrightarrow>
   collect (valid, responses) (map (\<lambda>name. (name, run name)) sel) =
     (valid, responses @ map (\<lambda>name. (name, response_of (run name))) sel)"
proof (induction sel arbitrary: responses)
  case Nil
  then show ?case by simp
next
  case (Cons n ns)
  then have f: "failed (run n)" and fs: "\<forall>name \<in> set ns. failed (run name)" by auto
  show ?case
    using f Cons.IH[OF fs] by (cases "run n") auto
qed

text \<open>
  C5. \<^verbatim>\<open>research_contact_consensus\<close> keeps two failures apart. When no model of
  \<^verbatim>\<open>self.models\<close> is eligible for the task it returns the dictionary with the message
  \<open>No models enabled for contact research\<close> and nothing else. When some are eligible
  and every adapter call failed (raised, or returned an \<open>error\<close> dictionary) it returns
  the message \<open>No valid responses from any model\<close> together with the response recorded
  for each eligible model. Neither dictionary carries a consensus field, and the two are
  never equal.
\<close>

theorem coordinator_error_taxonomy:
  assumes "registered cfg models"
  shows "(filter (eligible cfg ''contact_research'') models = [] \<longrightarrow>
            research_contact_consensus cfg models run =
              Inr (ErrorDict ''No models enabled for contact research'' None)) \<and>
         (filter (eligible cfg ''contact_research'') models \<noteq> [] \<and>
          (\<forall>name \<in> set (filter (eligible cfg ''contact_research'') models). failed (run name)) \<longrightarrow>
            research_contact_consensus cfg models run =
              Inr (ErrorDict ''No valid responses from any model''
                     (Some (map (\<lambda>name. (name, response_of (run name)))
                              (filter (eligible cfg ''contact_research'') models))))) \<and>
         (\<forall>responses.
            (ErrorDict ''No models enabled for contact research'' None :: contact_consensus research_result)
              \<noteq> ErrorDict ''No valid responses from any model'' (Some responses))"
proof -
  let ?sel = "filter (eligible cfg ''contact_research'') models"
  have s: "select_models cfg ''contact_research'' models = Inr ?sel"
    using select_models_registered[OF assms] .
  have a: "?sel = [] \<longrightarrow> research_contact_consensus cfg models run =
              Inr (ErrorDict ''No models enabled for contact research'' None)"
    by (simp add: research_contact_consensus_def s)
  have b: "research_contact_consensus cfg models run =
              Inr (ErrorDict ''No valid responses from any model''
                     (Some (map (\<lambda>name. (name, response_of (run name))) ?sel)))"
    if ne: "?sel \<noteq> []" and af: "\<forall>name \<in> set ?sel. failed (run name)"
    using ne collect_all_failed[OF af, of "[]" "[]"]
    by (simp add: research_contact_consensus_def s)
  show ?thesis using a b by simp
qed

theorem coordinator_error_taxonomy_witness:
  "registered email_only_config [''openai''] \<and>
   filter (eligible email_only_config ''contact_research'') [''openai''] = [] \<and>
   research_contact_consensus email_only_config [''openai''] (\<lambda>_. Raised ''timeout'') =
     Inr (ErrorDict ''No models enabled for contact research'' None) \<and>
   registered two_model_config [''openai'', ''gemini''] \<and>
   filter (eligible two_model_config ''contact_research'') [''openai'', ''gemini'']
     = [''openai'', ''gemini''] \<and>
   failed (Raised ''timeout'') \<and>
   research_contact_consensus two_model_config [''openai'', ''gemini''] (\<lambda>_. Raised ''timeout'') =
     Inr (ErrorDict ''No valid responses from any model''
            (Some [(''openai'', [''error'' \<mapsto> JStr ''timeout'']),
                   (''gemini'', [''error'' \<mapsto> JStr ''timeout''])]))"
proof -
  have r1: "registered email_only_config [''openai'']"
    by (simp add: registered_def email_only_config_def)
  have e1: "filter (eligible email_only_config ''contact_research'') [''openai''] = []"
    by (simp add: eligible_def email_only_config_def)
  have r2: "registered two_model_config [''openai'', ''gemini'']"
    by (simp add: registered_def two_model_config_def)
  have e2: "filter (eligible two_model_config ''contact_research'') [''openai'', ''gemini'']
              = [''openai'', ''gemini'']"
    by (simp add: eligible_def two_model_config_def)
  show ?thesis
    using coordinator_error_taxonomy[OF r1, of "\<lambda>_. Raised ''timeout''"]
      coordinator_error_taxonomy[OF r2, of "\<lambda>_. Raised ''timeout''"] r1 e1 r2 e2
    by simp
qed

section \<open>The first maximum and the votes dictionary\<close>









lemma distinct_first_occurrences [simp]: "distinct (first_occurrences xs)"
  by (simp add: first_occurrences_def)








section \<open>Company analysis: the result of the builder\<close>

lemma cast_vote_votable:
  "votable v \<Longrightarrow>
   cast_vote votes v w = Inr (foldl add_opinion votes (if truthy v then [(v, w)] else []))"
  by (auto simp: votable_def cast_vote_def add_opinion_def)

lemma company_step_char:
  assumes "map_of cfg (fst x) \<noteq> None" and "company_payloads_ok [x]"
  shows "company_step cfg st x =
     Inr \<lparr>industry_votes = foldl add_opinion (industry_votes st) (scalar_opinions cfg industry_of [x]),
          size_votes = foldl add_opinion (size_votes st) (scalar_opinions cfg size_of [x]),
          pain_points = foldl set_add (pain_points st) (collected points_of [x]),
          opportunities = foldl set_add (opportunities st) (collected opps_of [x]),
          decision_makers = foldl set_add (decision_makers st) (collected titles_of [x]),
          websites = websites st @ truthy_values website_of [x],
          linkedin_pages = linkedin_pages st @ truthy_values linkedin_of [x],
          company_confidence_scores =
            company_confidence_scores st @ company_scores cfg [x]\<rparr>"
proof -
  have ok: "votable (industry_of (snd x))" "votable (size_of (snd x))"
    "collectable (points_of (snd x))" "collectable (opps_of (snd x))"
    "collectable (titles_of (snd x))"
    using assms(2) by (simp_all add: company_payloads_ok_def)
  have sc: "append_score (company_confidence_scores st) (company_conf (snd x))
              (cfg_weight cfg (fst x))
            = company_confidence_scores st @ company_scores cfg [x]"
    by (simp add: append_score_def company_scores_def List.map_filter_simps split: option.splits)
  show ?thesis
    unfolding company_step_def
    by (simp add: weight_of_configured[OF assms(1)] cast_vote_votable[OF ok(1)]
        cast_vote_votable[OF ok(2)] set_update_collectable[OF ok(3)]
        set_update_collectable[OF ok(4)] set_update_collectable[OF ok(5)] sc
        scalar_opinions_def collected_def truthy_values_def append_if_def)
qed

lemma scalar_opinions_Cons:
  "scalar_opinions cfg get (x # xs) = scalar_opinions cfg get [x] @ scalar_opinions cfg get xs"
  by (simp add: scalar_opinions_def)

lemma collected_Cons: "collected get (x # xs) = collected get [x] @ collected get xs"
  by (simp add: collected_def)

lemma truthy_values_Cons:
  "truthy_values get (x # xs) = truthy_values get [x] @ truthy_values get xs"
  by (simp add: truthy_values_def)

lemma company_scores_Cons:
  "company_scores cfg (x # xs) = company_scores cfg [x] @ company_scores cfg xs"
  by (simp add: company_scores_def List.map_filter_simps split: option.splits)

lemma company_loop_char:
  assumes "configured cfg results" and "company_payloads_ok results"
  shows "company_loop cfg st results =
     Inr \<lparr>industry_votes = foldl add_opinion (industry_votes st) (scalar_opinions cfg industry_of results),
          size_votes = foldl add_opinion (size_votes st) (scalar_opinions cfg size_of results),
          pain_points = foldl set_add (pain_points st) (collected points_of results),
          opportunities = foldl set_add (opportunities st) (collected opps_of results),
          decision_makers = foldl set_add (decision_makers st) (collected titles_of results),
          websites = websites st @ truthy_values website_of results,
          linkedin_pages = linkedin_pages st @ truthy_values linkedin_of results,
          company_confidence_scores =
            company_confidence_scores st @ company_scores cfg results\<rparr>"
  using assms
proof (induction results arbitrary: st)
  case Nil
  then show ?case
    by (simp add: scalar_opinions_def collected_def truthy_values_def company_scores_def
        List.map_filter_simps)
next
  case (Cons x xs)
  then have cx: "map_of cfg (fst x) \<noteq> None" and cxs: "configured cfg xs"
    and ox: "company_payloads_ok [x]" and oxs: "company_payloads_ok xs"
    by (auto simp: configured_def company_payloads_ok_def)
  show ?case
    by (simp add: company_step_char[OF cx ox] Cons.IH[OF cxs oxs]
        scalar_opinions_Cons[of cfg _ x xs] collected_Cons[of _ x xs]
        truthy_values_Cons[of _ x xs] company_scores_Cons[of cfg x xs])
qed

lemma build_company_consensus_char:
  assumes "configured cfg results" and "company_payloads_ok results"
  shows "build_company_consensus order cfg results =
     Inr \<lparr>industry_type = winner (foldl add_opinion [] (scalar_opinions cfg industry_of results)) (JStr ''Other''),
          company_size = winner (foldl add_opinion [] (scalar_opinions cfg size_of results)) (JStr ''Unknown''),
          top_pain_points = take 5 (order (foldl set_add [] (collected points_of results))),
          yardi_opportunities = take 3 (order (foldl set_add [] (collected opps_of results))),
          target_decision_makers = take 5 (order (foldl set_add [] (collected titles_of results))),
          website_url = first_or_none (truthy_values website_of results),
          linkedin_company_url = first_or_none (truthy_values linkedin_of results),
          company_confidence_score =
            (if company_scores cfg results = [] then 0
             else sum_list (company_scores cfg results) / real (length results))\<rparr>"
proof -
  have "company_scores cfg results \<noteq> [] \<Longrightarrow> results \<noteq> []"
    by (auto simp: company_scores_def List.map_filter_simps)
  then show ?thesis
    by (auto simp: build_company_consensus_def company_loop_char[OF assms] company_init_def)
qed

section \<open>Scalar fields: plurality and the heaviest opinion\<close>







section \<open>Set-valued fields of company analysis\<close>

lemma capped_union:
  assumes "enumerates order"
  shows "distinct (take n (order (foldl set_add [] xs))) \<and>
         set (take n (order (foldl set_add [] xs))) \<subseteq> set xs \<and>
         length (take n (order (foldl set_add [] xs))) = min n (card (set xs)) \<and>
         (card (set xs) \<le> n \<longrightarrow> set (take n (order (foldl set_add [] xs))) = set xs)"
proof -
  let ?u = "foldl set_add [] xs"
  have du: "distinct ?u" by (rule distinct_foldl_set_add) simp
  have su: "set ?u = set xs" by (simp add: set_foldl_set_add)
  have d: "distinct (order ?u)" and s: "set (order ?u) = set xs"
    using assms du su by (auto simp: enumerates_def)
  have l: "length (order ?u) = card (set xs)"
    using d s by (metis distinct_card)
  have "set (take n (order ?u)) \<subseteq> set xs"
    using set_take_subset[of n "order ?u"] s by simp
  moreover have "card (set xs) \<le> n \<Longrightarrow> take n (order ?u) = order ?u"
    using l by simp
  ultimately show ?thesis
    using d s l by (auto simp: min_def)
qed

lemma pains_facts:
  "configured two_model_config pains_results"
  "company_payloads_ok pains_results"
  "collected points_of pains_results =
     [JStr ''a'', JStr ''b'', JStr ''c'', JStr ''d'', JStr ''c'', JStr ''d'', JStr ''e'',
      JStr ''f'', JStr ''g'']"
  "collected opps_of pains_results =
     [JStr ''x'', JStr ''y'', JStr ''y'', JStr ''z'', JStr ''w'']"
  "collected titles_of pains_results = []"
  by (simp_all add: configured_def two_model_config_def pains_results_def company_payloads_ok_def
      votable_def collectable_def industry_of_def size_of_def points_of_def opps_of_def
      titles_of_def get_default_def pains_1_def pains_2_def collected_def elements_of_def)

text \<open>
  C9. For company-analysis results whose values can be collected, each set-valued field
  of the consensus (pain points, opportunities, target decision-maker titles) lists,
  without repetition, elements of the union of the lists contributed by the results,
  and has as many elements as the union has, up to the cap of the field: 5 pain points,
  3 opportunities, 5 titles. When the union fits under the cap the field is the whole
  union. Which elements survive the truncation depends on the order in which
  \<^verbatim>\<open>list(s)\<close> enumerates the set.
\<close>

theorem set_fields_union_capped:
  assumes "configured cfg results" and "company_payloads_ok results" and "enumerates order"
  shows "\<exists>c. build_company_consensus order cfg results = Inr c \<and>
           (distinct (top_pain_points c) \<and>
            set (top_pain_points c) \<subseteq> set (collected points_of results) \<and>
            length (top_pain_points c) = min 5 (card (set (collected points_of results))) \<and>
            (card (set (collected points_of results)) \<le> 5 \<longrightarrow>
               set (top_pain_points c) = set (collected points_of results))) \<and>
           (distinct (yardi_opportunities c) \<and>
            set (yardi_opportunities c) \<subseteq> set (collected opps_of results) \<and>
            length (yardi_opportunities c) = min 3 (card (set (collected opps_of results))) \<and>
            (card (set (collected opps_of results)) \<le> 3 \<longrightarrow>
               set (yardi_opportunities c) = set (collected opps_of results))) \<and>
           (distinct (target_decision_makers c) \<and>
            set (target_decision_makers c) \<subseteq> set (collected titles_of results) \<and>
            length (target_decision_makers c) = min 5 (card (set (collected titles_of results))) \<and>
            (card (set (collected titles_of results)) \<le> 5 \<longrightarrow>
               set (target_decision_makers c) = set (collected titles_of results)))"
  using capped_union[OF assms(3), of 5 "collected points_of results"]
    capped_union[OF assms(3), of 3 "collected opps_of results"]
    capped_union[OF assms(3), of 5 "collected titles_of results"]
  by (simp add: build_company_consensus_char[OF assms(1,2)])

theorem set_fields_union_capped_witness:
  "configured two_model_config pains_results \<and> company_payloads_ok pains_results \<and>
   enumerates (\<lambda>xs. xs) \<and>
   (\<exists>c. build_company_consensus (\<lambda>xs. xs) two_model_config pains_results = Inr c \<and>
        length (top_pain_points c) = 5 \<and> length (yardi_opportunities c) = 3 \<and>
        set (yardi_opportunities c) \<subseteq> {JStr ''x'', JStr ''y'', JStr ''z'', JStr ''w''} \<and>
        target_decision_makers c = [])"
proof -
  have e: "enumerates (\<lambda>xs. xs)" by (simp add: enumerates_def)
  have c1: "card (set (collected points_of pains_results)) = 7"
    unfolding pains_facts(3) card_set by simp
  have c2: "card (set (collected opps_of pains_results)) = 4"
    unfolding pains_facts(4) card_set by simp
  have s2: "set (collected opps_of pains_results) = {JStr ''x'', JStr ''y'', JStr ''z'', JStr ''w''}"
    by (auto simp: pains_facts(4))
  show ?thesis
    using set_fields_union_capped[OF pains_facts(1,2) e] pains_facts(1,2,5) e c1 c2 s2
    by auto
qed

section \<open>The confidence score\<close>

text \<open>
  C2. The claim asks for the weighted mean of the confidences, normalised by the weights
  of the results that supplied a number. \<^verbatim>\<open>build_company_consensus\<close> divides the sum of
  the weighted confidences by the number of results: two sources of weight 0.3 and 0.2
  that both report 80 give 20, where the weighted mean is 80.
  \<^verbatim>\<open>build_contact_consensus\<close> divides by the weights of all results, also of those whose
  confidence is not a number and is left out of the numerator: a source of weight 0.3
  reporting \<open>high\<close> and one of weight 0.2 reporting 80 give 32, where the weighted mean
  over the numeric confidences is 80.
\<close>

theorem confidence_score_denominators:
  "map_sum id company_confidence_score
     (build_company_consensus (\<lambda>xs. xs) two_model_config
        [(''openai'', sure_80), (''gemini'', sure_80)]) = Inr 20 \<and>
   spec_confidence two_model_config company_conf
     [(''openai'', sure_80), (''gemini'', sure_80)] = 80 \<and>
   map_sum id confidence_score
     (build_contact_consensus two_model_config [''openai'', ''gemini'']
        [(''openai'', sure_high), (''gemini'', sure_80)]) = Inr 32 \<and>
   spec_confidence two_model_config contact_conf
     [(''openai'', sure_high), (''gemini'', sure_80)] = 80"
proof -
  let ?r1 = "[(''openai'', sure_80), (''gemini'', sure_80)]"
  let ?r2 = "[(''openai'', sure_high), (''gemini'', sure_80)]"
  have c1: "configured two_model_config ?r1" and c2: "configured two_model_config ?r2"
    by (simp_all add: configured_def two_model_config_def)
  have ok: "company_payloads_ok ?r1"
    by (simp add: company_payloads_ok_def votable_def collectable_def industry_of_def
        size_of_def points_of_def opps_of_def titles_of_def get_default_def sure_80_def)
  have p2: "positive_weights two_model_config ?r2"
    by (simp add: positive_weights_def cfg_weight_def two_model_config_def)
  have s1: "company_scores two_model_config ?r1 = [24, 16]"
    by (simp add: company_scores_def List.map_filter_simps company_conf_def get_default_def
        sure_80_def cfg_weight_def two_model_config_def)
  have s2: "contact_scores two_model_config ?r2 = [16]"
    by (simp add: contact_scores_def List.map_filter_simps contact_conf_def get_default_def
        sure_80_def sure_high_def cfg_weight_def two_model_config_def)
  have w2: "present_weight two_model_config ?r2 = 1 / 2"
    by (simp add: present_weight_def cfg_weight_def two_model_config_def)
  have a: "map_sum id company_confidence_score
     (build_company_consensus (\<lambda>xs. xs) two_model_config ?r1) = Inr 20"
    by (simp add: build_company_consensus_char[OF c1 ok] s1)
  have b: "spec_confidence two_model_config company_conf ?r1 = 80"
    by (simp add: spec_confidence_def List.map_filter_simps company_conf_def get_default_def
        sure_80_def present_weight_def cfg_weight_def two_model_config_def)
  have c: "map_sum id confidence_score
     (build_contact_consensus two_model_config [''openai'', ''gemini''] ?r2) = Inr 32"
    by (simp add: build_contact_consensus_char[OF c2 _ p2] s2 w2)
  have d: "spec_confidence two_model_config contact_conf ?r2 = 80"
    by (simp add: spec_confidence_def List.map_filter_simps contact_conf_def get_default_def
        sure_80_def sure_high_def present_weight_def cfg_weight_def two_model_config_def)
  show ?thesis using a b c d by simp
qed

section \<open>Reordering the results\<close>































section \<open>Adapters and the gathered batch\<close>




end
